theory Spec2Isabelle
  imports Main "HOL-Library.AList"
begin

section \<open>JavaScript values held by the settings store\<close>

text \<open>
  \<^verbatim>\<open>loadSettingIntoState\<close> types what the store returns as
  \<^verbatim>\<open>string | boolean | null\<close>; \<^verbatim>\<open>null\<close> is also what \<^verbatim>\<open>store.get\<close> yields for a
  key that was never set.
\<close>

datatype jsval = JNull | JBool bool | JStr string

text \<open>The truthiness test behind \<^verbatim>\<open>!value\<close> and \<^verbatim>\<open>Boolean(value)\<close>.\<close>

fun truthy :: "jsval \<Rightarrow> bool" where
  "truthy JNull = False"
| "truthy (JBool b) = b"
| "truthy (JStr s) = (s \<noteq> [])"

fun js_String :: "jsval \<Rightarrow> string" where
  "js_String JNull = ''null''"
| "js_String (JBool b) = (if b then ''true'' else ''false'')"
| "js_String (JStr s) = s"

definition js_Boolean :: "jsval \<Rightarrow> bool" where
  "js_Boolean v = truthy v"

section \<open>KVProvider.tsx\<close>

text \<open>
  Modelled from the spec: the type \<^verbatim>\<open>PTSettingsKeyType\<close> and the table
  \<^verbatim>\<open>AVAILABLE_SETTINGS\<close> are imported from \<^verbatim>\<open>../../utils\<close>, which is not part of the
  sources at hand. The spec lists the recognised keys as \<^verbatim>\<open>piano-sound\<close>,
  \<^verbatim>\<open>show-keyboard\<close> and \<^verbatim>\<open>mute-sound\<close>; they are the three cases of the
  \<^verbatim>\<open>switch\<close> in \<^verbatim>\<open>loadSettingIntoState\<close>.
\<close>

datatype PTSettingsKeyType = PianoSound | ShowKeyboard | MuteSound

definition AVAILABLE_SETTINGS :: "PTSettingsKeyType list" where
  "AVAILABLE_SETTINGS = [PianoSound, ShowKeyboard, MuteSound]"

subsection \<open>The store (external collaborator)\<close>

text \<open>
  The store of \<^verbatim>\<open>tauri-plugin-store-api\<close> keeps an in-memory table (\<open>cache\<close>) beside
  the file \<^verbatim>\<open>.settings.dat\<close> (\<open>disk\<close>; \<open>None\<close> when the file cannot be read).
  \<^verbatim>\<open>set\<close> writes the table, \<^verbatim>\<open>save\<close> flushes it to the file, \<^verbatim>\<open>load\<close> reads the
  file into the table and \<^verbatim>\<open>get\<close> reads the table. \<open>requests\<close> records the
  \<^verbatim>\<open>set\<close> and \<^verbatim>\<open>save\<close> requests the provider has issued, in order.
\<close>

datatype store_request = SetReq PTSettingsKeyType jsval | SaveReq

datatype store_error = LoadFailed

record kv_store =
  cache :: "(PTSettingsKeyType \<times> jsval) list"
  disk :: "(PTSettingsKeyType \<times> jsval) list option"
  requests :: "store_request list"

definition store_set :: "PTSettingsKeyType \<Rightarrow> jsval \<Rightarrow> kv_store \<Rightarrow> kv_store" where
  "store_set k v st =
     st\<lparr>cache := AList.update k v (cache st), requests := requests st @ [SetReq k v]\<rparr>"

definition store_save :: "kv_store \<Rightarrow> kv_store" where
  "store_save st = st\<lparr>disk := Some (cache st), requests := requests st @ [SaveReq]\<rparr>"

definition store_get :: "kv_store \<Rightarrow> PTSettingsKeyType \<Rightarrow> jsval" where
  "store_get st k = (case map_of (cache st) k of None \<Rightarrow> JNull | Some v \<Rightarrow> v)"

definition store_load :: "kv_store \<Rightarrow> store_error + kv_store" where
  "store_load st = (case disk st of None \<Rightarrow> Inl LoadFailed | Some d \<Rightarrow> Inr (st\<lparr>cache := d\<rparr>))"

text \<open>A store object opened on a settings file, nothing loaded yet.\<close>

definition new_Store :: "(PTSettingsKeyType \<times> jsval) list option \<Rightarrow> kv_store" where
  "new_Store d = \<lparr>cache = [], disk = d, requests = []\<rparr>"

subsection \<open>The provider's state\<close>

record kv_state =
  store :: kv_store
  isLoading :: bool
  pianoSound :: string
  showKeyboard :: bool
  muteSound :: bool
  console_errors :: "store_error list"

text \<open>The \<^verbatim>\<open>useState\<close> defaults of a provider that has just been mounted.\<close>

definition KVProvider_init :: "kv_store \<Rightarrow> kv_state" where
  "KVProvider_init st =
     \<lparr>store = st, isLoading = True, pianoSound = ''acoustic_grand_piano'',
      showKeyboard = True, muteSound = False, console_errors = []\<rparr>"

text \<open>
  \<^verbatim>\<open>
  (key, value) => {
    if (isLoading) return
    store.set(key, value)
    store.save()
  }
  \<close>
\<close>

definition saveSetting :: "PTSettingsKeyType \<Rightarrow> jsval \<Rightarrow> kv_state \<Rightarrow> kv_state" where
  "saveSetting key v s =
     (if isLoading s then s
      else s\<lparr>store := store_save (store_set key v (store s))\<rparr>)"

text \<open>
  \<^verbatim>\<open>
  const value = await store.get(key)
  if (!value) { return }
  switch (key) {
    case 'piano-sound':   setPianoSound(String(value)); break
    case 'show-keyboard': setShowKeyboard(Boolean(value)); break
    case 'mute-sound':    setMuteSound(Boolean(value)); break
  }
  \<close>
\<close>

definition loadSettingIntoState :: "PTSettingsKeyType \<Rightarrow> kv_state \<Rightarrow> kv_state" where
  "loadSettingIntoState key s =
     (let v = store_get (store s) key in
      if \<not> truthy v then s
      else (case key of
              PianoSound \<Rightarrow> s\<lparr>pianoSound := js_String v\<rparr>
            | ShowKeyboard \<Rightarrow> s\<lparr>showKeyboard := js_Boolean v\<rparr>
            | MuteSound \<Rightarrow> s\<lparr>muteSound := js_Boolean v\<rparr>))"

text \<open>The \<^verbatim>\<open>for (const key in AVAILABLE_SETTINGS)\<close> loop, over the keys it enumerates.\<close>

fun load_settings :: "PTSettingsKeyType list \<Rightarrow> kv_state \<Rightarrow> kv_state" where
  "load_settings [] s = s"
| "load_settings (key # keys) s = load_settings keys (loadSettingIntoState key s)"

text \<open>
  The mount effect:
  \<^verbatim>\<open>
  store.load()
    .then(async () => { for (const key in AVAILABLE_SETTINGS) { await loadSettingIntoState(key) } })
    .catch((e) => console.error(e))
    .finally(() => setIsLoading(false))
  \<close>
\<close>

definition mount_effect :: "PTSettingsKeyType list \<Rightarrow> kv_state \<Rightarrow> kv_state" where
  "mount_effect keys s =
     (let s' = (case store_load (store s) of
                  Inr st \<Rightarrow> load_settings keys (s\<lparr>store := st\<rparr>)
                | Inl e \<Rightarrow> s\<lparr>console_errors := console_errors s @ [e]\<rparr>)
      in s'\<lparr>isLoading := False\<rparr>)"

text \<open>
  A fresh load: a provider mounted on a store object newly opened on the settings file
  \<open>d\<close>, after its mount effect has run.
\<close>

definition fresh_load :: "(PTSettingsKeyType \<times> jsval) list option \<Rightarrow> kv_state" where
  "fresh_load d = mount_effect AVAILABLE_SETTINGS (KVProvider_init (new_Store d))"

text \<open>\<^verbatim>\<open>{!isLoading && children}\<close>\<close>

definition renders_children :: "kv_state \<Rightarrow> bool" where
  "renders_children s = (\<not> isLoading s)"

section \<open>Keyboard.tsx\<close>

subsection \<open>The active-note object\<close>

text \<open>
  \<^verbatim>\<open>activeNotes\<close> is an object used as a dictionary. Its property names come from
  \<^verbatim>\<open>note\<close>, the second element of the message: a number, or \<^verbatim>\<open>undefined\<close> when the
  message has fewer than two elements. Numbers are taken to be integers. A property
  name is written here as the value it was computed from, which determines it.
\<close>

datatype prop_key = KNum int | KUndefined

type_synonym note_object = "(prop_key \<times> bool) list"

text \<open>
  The list keeps the properties in the order \<^verbatim>\<open>Object.keys\<close> enumerates them: array
  indices (integers from 0 up to \<open>2^32 - 2\<close>) ascending, then every other name in the
  order of creation.
\<close>

definition is_array_index :: "int \<Rightarrow> bool" where
  "is_array_index n = (0 \<le> n \<and> n < 4294967295)"

fun enumerates_before :: "prop_key \<Rightarrow> prop_key \<Rightarrow> bool" where
  "enumerates_before (KNum a) (KNum b) =
     (is_array_index a \<and> (if is_array_index b then a < b else True))"
| "enumerates_before (KNum a) KUndefined = is_array_index a"
| "enumerates_before KUndefined _ = False"

text \<open>\<^verbatim>\<open>{...an, [note]: v}\<close>: a copy of \<^verbatim>\<open>an\<close> with the property \<^verbatim>\<open>note\<close> set to \<^verbatim>\<open>v\<close>.\<close>

fun obj_put :: "prop_key \<Rightarrow> bool \<Rightarrow> note_object \<Rightarrow> note_object" where
  "obj_put k v [] = [(k, v)]"
| "obj_put k v ((k', v') # ps) =
     (if k = k' then (k, v) # ps
      else if enumerates_before k k' \<and> k \<notin> fst ` set ps then (k, v) # (k', v') # ps
      else (k', v') # obj_put k v ps)"

text \<open>\<^verbatim>\<open>an[k]\<close>: \<open>None\<close> is \<^verbatim>\<open>undefined\<close>.\<close>

definition obj_get :: "note_object \<Rightarrow> prop_key \<Rightarrow> bool option" where
  "obj_get an k = map_of an k"

definition Object_keys :: "note_object \<Rightarrow> prop_key list" where
  "Object_keys an = map fst an"

datatype jsnum = Num int | NaN

fun js_Number :: "prop_key \<Rightarrow> jsnum" where
  "js_Number (KNum n) = Num n"
| "js_Number KUndefined = NaN"

subsection \<open>The MIDI listener\<close>

text \<open>\<^verbatim>\<open>const [command, note] = payload.message\<close>\<close>

fun destructure2 :: "int list \<Rightarrow> int option \<times> int option" where
  "destructure2 [] = (None, None)"
| "destructure2 [c] = (Some c, None)"
| "destructure2 (c # n # rest) = (Some c, Some n)"

fun computed_key :: "int option \<Rightarrow> prop_key" where
  "computed_key None = KUndefined"
| "computed_key (Some n) = KNum n"

text \<open>
  \<^verbatim>\<open>
  if (command === 144) { setActiveNotes((an) => ({ ...an, [note]: true })) }
  if (command === 128) { setActiveNotes((an) => ({ ...an, [note]: false })) }
  \<close>
\<close>

definition midi_message_listener :: "int list \<Rightarrow> note_object \<Rightarrow> note_object" where
  "midi_message_listener message an =
     (case destructure2 message of (command, note) \<Rightarrow>
        (let an1 = (if command = Some 144 then obj_put (computed_key note) True an else an);
             an2 = (if command = Some 128 then obj_put (computed_key note) False an1 else an1)
         in an2))"

text \<open>
  \<^verbatim>\<open>
  Object.keys(activeNotes).filter((v) => activeNotes[v]).map((s) => Number(s))
  \<close>
\<close>

definition rendered_activeNotes :: "note_object \<Rightarrow> jsnum list" where
  "rendered_activeNotes an =
     map js_Number (filter (\<lambda>v. obj_get an v = Some True) (Object_keys an))"

subsection \<open>Connection setup\<close>

datatype keyboard_effect =
    Invoke string nat
  | Listen string
  | ConsoleLog string

record keyboard_state =
  isListening :: bool
  activeNotes :: note_object
  effects :: "keyboard_effect list"

text \<open>
  \<^verbatim>\<open>
  const [isListening, setIsListening] = useState(false)
  const onLoadCallback = useCallback(() => {
    if (isListening) return
    invoke('open_midi_connection', { inputIdx: 0 })
    listen('midi_message', ...).catch(console.error)
    console.log('Connected & listening to MIDI device...')
    setIsListening(true)
  }, [isListening, setIsListening])
  \<close>
  The guard reads the constant \<^verbatim>\<open>isListening\<close> that the callback's closure captured
  when it was built, not the state that \<^verbatim>\<open>setIsListening\<close> writes: the first argument
  is that captured constant, the second the state the call acts on.
\<close>

definition onLoadCallback :: "bool \<Rightarrow> keyboard_state \<Rightarrow> keyboard_state" where
  "onLoadCallback isListening_captured s =
     (if isListening_captured then s
      else s\<lparr>effects := effects s @
                [Invoke ''open_midi_connection'' 0, Listen ''midi_message'',
                 ConsoleLog ''Connected & listening to MIDI device...''],
             isListening := True\<rparr>)"

text \<open>
  A render of the state \<open>r\<close> builds the callback with \<open>isListening r\<close> captured
  (\<^verbatim>\<open>useCallback\<close> rebuilds it when \<^verbatim>\<open>isListening\<close> changes), and
  \<^verbatim>\<open>useEffect(() => { onLoadCallback() }, [onLoadCallback, isListening])\<close> runs the
  callback of the current render.
\<close>

definition rendered_onLoadCallback :: "keyboard_state \<Rightarrow> keyboard_state \<Rightarrow> keyboard_state" where
  "rendered_onLoadCallback r = onLoadCallback (isListening r)"

definition load_effect :: "keyboard_state \<Rightarrow> keyboard_state" where
  "load_effect s = rendered_onLoadCallback s s"

definition connections_opened :: "keyboard_state \<Rightarrow> nat" where
  "connections_opened s = count_list (effects s) (Invoke ''open_midi_connection'' 0)"

definition subscriptions :: "keyboard_state \<Rightarrow> nat" where
  "subscriptions s = count_list (effects s) (Listen ''midi_message'')"

subsection \<open>The handlers given to the piano widget\<close>

text \<open>
  Modelled from the spec: \<^verbatim>\<open>TrainerContext\<close> comes from \<^verbatim>\<open>../TrainerProvider\<close>, which
  is not part of the sources at hand. It supplies \<^verbatim>\<open>nextTargetNote\<close>, a MIDI note
  number (\<open>None\<close>: not supplied), and the setter of a counter it owns; the call
  \<^verbatim>\<open>setNoteCounter?.(...)\<close> does nothing when the setter is not supplied.
\<close>

record trainer_context =
  nextTargetNote :: "int option"
  setNoteCounter_supplied :: bool

datatype piano_call = SetNoteCounterCall | PlayNoteCall int | StopNoteCall int

record piano_world =
  noteCounter :: int
  calls :: "piano_call list"

text \<open>
  \<^verbatim>\<open>
  playNote={(midiNumber) => {
    if (midiNumber === nextTargetNote) { setNoteCounter?.((nc) => nc + 1) }
    playNote(midiNumber)
  }}
  stopNote={(midiNumber) => { stopNote(midiNumber) }}
  \<close>
\<close>

definition piano_playNote :: "trainer_context \<Rightarrow> int \<Rightarrow> piano_world \<Rightarrow> piano_world" where
  "piano_playNote ctx midiNumber w =
     (let w1 = (if Some midiNumber = nextTargetNote ctx
                then (if setNoteCounter_supplied ctx
                      then w\<lparr>noteCounter := noteCounter w + 1,
                             calls := calls w @ [SetNoteCounterCall]\<rparr>
                      else w)
                else w)
      in w1\<lparr>calls := calls w1 @ [PlayNoteCall midiNumber]\<rparr>)"

definition piano_stopNote :: "int \<Rightarrow> piano_world \<Rightarrow> piano_world" where
  "piano_stopNote midiNumber w = w\<lparr>calls := calls w @ [StopNoteCall midiNumber]\<rparr>"

section \<open>Properties of the settings provider\<close>

lemma loadSettingIntoState_store: "store (loadSettingIntoState key s) = store s"
  by (cases key) (simp_all add: loadSettingIntoState_def Let_def)

text \<open>
  What a fresh load puts into the state, read off the settings file. The keyboard flag
  comes out \<open>True\<close> whatever the file holds: a stored \<^verbatim>\<open>true\<close> is loaded as
  \<^verbatim>\<open>true\<close>, and anything else leaves the default \<^verbatim>\<open>true\<close>.
\<close>

lemma fresh_load_fields:
  "pianoSound (fresh_load (Some d)) =
     (case map_of d PianoSound of
        Some v \<Rightarrow> if truthy v then js_String v else ''acoustic_grand_piano''
      | None \<Rightarrow> ''acoustic_grand_piano'')"
  "showKeyboard (fresh_load (Some d)) = True"
  "muteSound (fresh_load (Some d)) =
     (case map_of d MuteSound of Some v \<Rightarrow> truthy v | None \<Rightarrow> False)"
  by (simp_all add: fresh_load_def mount_effect_def KVProvider_init_def new_Store_def
        store_load_def AVAILABLE_SETTINGS_def loadSettingIntoState_def store_get_def
        js_Boolean_def Let_def split: option.splits)

text \<open>Truthy values do survive saving and a fresh load.\<close>

lemma roundtrip_truthy:
  assumes "\<not> isLoading s" and "truthy v"
  shows "(case key of
            PianoSound \<Rightarrow>
              pianoSound (fresh_load (disk (store (saveSetting key v s)))) = js_String v
          | ShowKeyboard \<Rightarrow>
              showKeyboard (fresh_load (disk (store (saveSetting key v s)))) = js_Boolean v
          | MuteSound \<Rightarrow>
              muteSound (fresh_load (disk (store (saveSetting key v s)))) = js_Boolean v)"
  using assms
  by (cases key)
     (simp_all add: saveSetting_def store_save_def store_set_def fresh_load_fields update_conv'
        js_Boolean_def)

text \<open>
  Claim C1 (round trip of save and fresh load) fails on the code for a stored
  \<^verbatim>\<open>false\<close>. A provider whose load has completed saves \<^verbatim>\<open>false\<close> under
  \<^verbatim>\<open>show-keyboard\<close>; the settings file then holds \<^verbatim>\<open>false\<close> for that key, and a
  fresh load of that file ends with \<^verbatim>\<open>showKeyboard = true\<close>, because
  \<^verbatim>\<open>if (!value) return\<close> skips the stored \<^verbatim>\<open>false\<close> and the default stays.
\<close>

theorem saved_false_show_keyboard_reloads_true:
  "\<not> isLoading (fresh_load (Some [])) \<and>
   map_of (the (disk (store (saveSetting ShowKeyboard (JBool False) (fresh_load (Some []))))))
       ShowKeyboard = Some (JBool False) \<and>
   showKeyboard
       (fresh_load (disk (store (saveSetting ShowKeyboard (JBool False) (fresh_load (Some []))))))
     = True"
  by (simp add: fresh_load_def mount_effect_def KVProvider_init_def new_Store_def store_load_def
        AVAILABLE_SETTINGS_def loadSettingIntoState_def store_get_def saveSetting_def
        store_save_def store_set_def Let_def)

text \<open>
  Claim C2: for every key and value, \<^verbatim>\<open>saveSetting\<close> called while \<^verbatim>\<open>isLoading\<close> is
  true changes nothing (no \<^verbatim>\<open>set\<close>, no \<^verbatim>\<open>save\<close>, and a read of the store gives what
  it gave before); called while \<^verbatim>\<open>isLoading\<close> is false it issues \<^verbatim>\<open>set(key, value)\<close>
  and then \<^verbatim>\<open>save()\<close>, after which the store returns the value for the key and the
  settings file holds the updated table.
\<close>

theorem saveSetting_noop_while_loading:
  "saveSetting key v (s\<lparr>isLoading := True\<rparr>) = s\<lparr>isLoading := True\<rparr> \<and>
   requests (store (saveSetting key v (s\<lparr>isLoading := True\<rparr>))) = requests (store s) \<and>
   disk (store (saveSetting key v (s\<lparr>isLoading := True\<rparr>))) = disk (store s) \<and>
   store_get (store (saveSetting key v (s\<lparr>isLoading := True\<rparr>))) k = store_get (store s) k \<and>
   store (saveSetting key v (s\<lparr>isLoading := False\<rparr>)) = store_save (store_set key v (store s)) \<and>
   requests (store (saveSetting key v (s\<lparr>isLoading := False\<rparr>)))
     = requests (store s) @ [SetReq key v, SaveReq] \<and>
   store_get (store (saveSetting key v (s\<lparr>isLoading := False\<rparr>))) key = v \<and>
   disk (store (saveSetting key v (s\<lparr>isLoading := False\<rparr>)))
     = Some (AList.update key v (cache (store s)))"
  by (simp add: saveSetting_def store_save_def store_set_def store_get_def update_conv')

text \<open>
  Claim C8: \<^verbatim>\<open>loadSettingIntoState\<close> leaves the state as it is when the key is
  absent from the store or its stored value is falsy; otherwise it sets
  \<^verbatim>\<open>pianoSound\<close> to \<^verbatim>\<open>String(value)\<close> for \<^verbatim>\<open>piano-sound\<close>, \<^verbatim>\<open>showKeyboard\<close> to
  \<^verbatim>\<open>Boolean(value)\<close> for \<^verbatim>\<open>show-keyboard\<close> and \<^verbatim>\<open>muteSound\<close> to
  \<^verbatim>\<open>Boolean(value)\<close> for \<^verbatim>\<open>mute-sound\<close>, and nothing else.
\<close>

theorem loadSettingIntoState_skips_or_coerces:
  "(map_of (cache (store s)) key = None \<longrightarrow> loadSettingIntoState key s = s) \<and>
   (\<not> truthy (store_get (store s) key) \<longrightarrow> loadSettingIntoState key s = s) \<and>
   (truthy (store_get (store s) PianoSound) \<longrightarrow>
      loadSettingIntoState PianoSound s
        = s\<lparr>pianoSound := js_String (store_get (store s) PianoSound)\<rparr>) \<and>
   (truthy (store_get (store s) ShowKeyboard) \<longrightarrow>
      loadSettingIntoState ShowKeyboard s
        = s\<lparr>showKeyboard := js_Boolean (store_get (store s) ShowKeyboard)\<rparr>) \<and>
   (truthy (store_get (store s) MuteSound) \<longrightarrow>
      loadSettingIntoState MuteSound s
        = s\<lparr>muteSound := js_Boolean (store_get (store s) MuteSound)\<rparr>)"
  by (simp add: loadSettingIntoState_def store_get_def Let_def)

theorem loadSettingIntoState_skips_or_coerces_witness:
  "map_of [(PianoSound, JStr ''marimba''), (ShowKeyboard, JBool True)] MuteSound = None \<and>
   \<not> truthy (store_get (new_Store None\<lparr>cache := [(ShowKeyboard, JBool False)]\<rparr>) ShowKeyboard) \<and>
   loadSettingIntoState MuteSound
       (KVProvider_init (new_Store None
          \<lparr>cache := [(PianoSound, JStr ''marimba''), (ShowKeyboard, JBool True)]\<rparr>))
     = KVProvider_init (new_Store None
          \<lparr>cache := [(PianoSound, JStr ''marimba''), (ShowKeyboard, JBool True)]\<rparr>) \<and>
   loadSettingIntoState ShowKeyboard
       (KVProvider_init (new_Store None\<lparr>cache := [(ShowKeyboard, JBool False)]\<rparr>))
     = KVProvider_init (new_Store None\<lparr>cache := [(ShowKeyboard, JBool False)]\<rparr>) \<and>
   pianoSound (loadSettingIntoState PianoSound
       (KVProvider_init (new_Store None
          \<lparr>cache := [(PianoSound, JStr ''marimba''), (ShowKeyboard, JBool True)]\<rparr>)))
     = ''marimba'' \<and>
   showKeyboard (loadSettingIntoState ShowKeyboard
       (KVProvider_init (new_Store None
          \<lparr>cache := [(PianoSound, JStr ''marimba''), (ShowKeyboard, JBool True)]\<rparr>)))
     = True \<and>
   muteSound (loadSettingIntoState MuteSound
       (KVProvider_init (new_Store None\<lparr>cache := [(MuteSound, JBool True)]\<rparr>)))
     = True"
  using
    loadSettingIntoState_skips_or_coerces
      [of "KVProvider_init (new_Store None
             \<lparr>cache := [(PianoSound, JStr ''marimba''), (ShowKeyboard, JBool True)]\<rparr>)"
          MuteSound]
    loadSettingIntoState_skips_or_coerces
      [of "KVProvider_init (new_Store None\<lparr>cache := [(ShowKeyboard, JBool False)]\<rparr>)"
          ShowKeyboard]
    loadSettingIntoState_skips_or_coerces
      [of "KVProvider_init (new_Store None\<lparr>cache := [(MuteSound, JBool True)]\<rparr>)" MuteSound]
  by (simp add: KVProvider_init_def new_Store_def store_get_def js_Boolean_def)

text \<open>
  Claim C9: when the initial \<^verbatim>\<open>store.load()\<close> fails, the mount effect logs the
  error, leaves \<^verbatim>\<open>pianoSound\<close>, \<^verbatim>\<open>showKeyboard\<close> and \<^verbatim>\<open>muteSound\<close> at their defaults
  and clears \<^verbatim>\<open>isLoading\<close>; the children, not rendered before, are rendered
  afterwards, as they are after a load that succeeds.
\<close>

theorem failed_load_completes_with_defaults:
  "store_load (st\<lparr>disk := None\<rparr>) = Inl LoadFailed \<and>
   mount_effect keys (KVProvider_init (st\<lparr>disk := None\<rparr>))
     = (KVProvider_init (st\<lparr>disk := None\<rparr>))
         \<lparr>console_errors := [LoadFailed], isLoading := False\<rparr> \<and>
   pianoSound (mount_effect keys (KVProvider_init (st\<lparr>disk := None\<rparr>)))
     = ''acoustic_grand_piano'' \<and>
   showKeyboard (mount_effect keys (KVProvider_init (st\<lparr>disk := None\<rparr>))) = True \<and>
   muteSound (mount_effect keys (KVProvider_init (st\<lparr>disk := None\<rparr>))) = False \<and>
   isLoading (mount_effect keys (KVProvider_init (st\<lparr>disk := None\<rparr>))) = False \<and>
   \<not> renders_children (KVProvider_init (st\<lparr>disk := None\<rparr>)) \<and>
   renders_children (mount_effect keys (KVProvider_init (st\<lparr>disk := None\<rparr>))) \<and>
   renders_children (mount_effect keys (KVProvider_init (st\<lparr>disk := Some d\<rparr>)))"
  by (simp add: mount_effect_def KVProvider_init_def store_load_def renders_children_def Let_def)

section \<open>Properties of the MIDI listener\<close>

lemma map_of_obj_put: "map_of (obj_put k v an) = (map_of an)(k \<mapsto> v)"
  by (induction an) (auto simp: fun_eq_iff)

lemma obj_get_put_same: "obj_get (obj_put k v an) k = Some v"
  by (simp add: obj_get_def map_of_obj_put)

lemma obj_get_put_other: "k' \<noteq> k \<Longrightarrow> obj_get (obj_put k v an) k' = obj_get an k'"
  by (simp add: obj_get_def map_of_obj_put)

lemma destructure2_take: "destructure2 (take 2 message) = destructure2 message"
  by (cases message rule: destructure2.cases) simp_all

text \<open>
  Claim C3: after the listener has handled a message with command 144 and note \<open>N\<close>,
  \<^verbatim>\<open>activeNotes[N]\<close> is \<^verbatim>\<open>true\<close>; after it has then handled a message with command
  128 and note \<open>N\<close>, \<^verbatim>\<open>activeNotes[N]\<close> is \<^verbatim>\<open>false\<close>.
\<close>

theorem note_on_then_note_off:
  "obj_get (midi_message_listener (144 # N # rest) an) (KNum N) = Some True \<and>
   obj_get (midi_message_listener (128 # N # rest')
              (midi_message_listener (144 # N # rest) an)) (KNum N) = Some False"
  by (simp add: midi_message_listener_def obj_get_put_same)

text \<open>
  Claim C7: a message whose command is neither 144 nor 128 (a message with no
  command at all included) leaves \<^verbatim>\<open>activeNotes\<close> exactly as it was.
\<close>

theorem other_commands_ignored:
  assumes "fst (destructure2 message) \<noteq> Some 144"
    and "fst (destructure2 message) \<noteq> Some 128"
  shows "midi_message_listener message an = an"
proof (cases "destructure2 message")
  case (Pair c n)
  with assms show ?thesis
    by (simp add: midi_message_listener_def)
qed

theorem other_commands_ignored_witness:
  "fst (destructure2 [176, 64, 127]) \<noteq> Some 144 \<and>
   fst (destructure2 [176, 64, 127]) \<noteq> Some 128 \<and>
   midi_message_listener [176, 64, 127] [(KNum 60, True)] = [(KNum 60, True)]"
proof -
  have h1: "fst (destructure2 [176, 64, 127]) \<noteq> Some 144" by simp
  have h2: "fst (destructure2 [176, 64, 127]) \<noteq> Some 128" by simp
  show ?thesis
    using h1 h2 other_commands_ignored [OF h1 h2, of "[(KNum 60, True)]"] by simp
qed

text \<open>
  Claim C10: handling one message changes \<^verbatim>\<open>activeNotes\<close> at no property other
  than the one named by the message's second element, and the result depends on the
  first two elements of the message only.
\<close>

theorem listener_touches_only_its_note:
  "(k \<noteq> computed_key (snd (destructure2 message)) \<longrightarrow>
      obj_get (midi_message_listener message an) k = obj_get an k) \<and>
   midi_message_listener message an = midi_message_listener (take 2 message) an"
  by (simp add: midi_message_listener_def destructure2_take obj_get_put_other
        split: prod.splits)

theorem listener_touches_only_its_note_witness:
  "KNum 61 \<noteq> computed_key (snd (destructure2 [144, 60, 100])) \<and>
   obj_get (midi_message_listener [144, 60, 100] [(KNum 61, True)]) (KNum 61) = Some True \<and>
   obj_get (midi_message_listener [144, 60, 100] [(KNum 61, True)]) (KNum 60) = Some True \<and>
   midi_message_listener [144, 60, 100] [(KNum 61, True)]
     = midi_message_listener [144, 60] [(KNum 61, True)]"
  using listener_touches_only_its_note [of "KNum 61" "[144, 60, 100]" "[(KNum 61, True)]"]
  by (simp add: midi_message_listener_def obj_get_def is_array_index_def)

section \<open>Properties of the rendered keyboard\<close>

lemma js_Number_inj: "js_Number a = js_Number b \<Longrightarrow> a = b"
  by (cases a; cases b) simp_all

lemma set_rendered_activeNotes:
  "set (rendered_activeNotes an) = js_Number ` {k. obj_get an k = Some True}"
proof -
  have "{k \<in> fst ` set an. map_of an k = Some True} = {k. map_of an k = Some True}"
    by (auto dest: map_of_SomeD intro: rev_image_eqI)
  then show ?thesis
    by (simp add: rendered_activeNotes_def Object_keys_def obj_get_def)
qed

text \<open>
  Claim C5: the notes passed to the piano widget as active are exactly those whose
  entry in \<^verbatim>\<open>activeNotes\<close> is \<^verbatim>\<open>true\<close>; setting an entry to \<^verbatim>\<open>false\<close> takes the note
  out of that set, as if it had no entry; and for \<^verbatim>\<open>{60: true, 62: false, 64: true}\<close>
  the widget receives 60 and 64.
\<close>

theorem rendered_activeNotes_are_true_entries:
  "set (rendered_activeNotes an) = js_Number ` {k. obj_get an k = Some True} \<and>
   (Num n \<in> set (rendered_activeNotes an)) = (obj_get an (KNum n) = Some True) \<and>
   set (rendered_activeNotes (obj_put k False an))
     = set (rendered_activeNotes an) - {js_Number k} \<and>
   rendered_activeNotes [(KNum 60, True), (KNum 62, False), (KNum 64, True)]
     = [Num 60, Num 64]"
proof -
  have a: "(Num n \<in> set (rendered_activeNotes an)) = (obj_get an (KNum n) = Some True)"
    unfolding set_rendered_activeNotes using js_Number_inj [of _ "KNum n"] by force
  have b: "set (rendered_activeNotes (obj_put k False an))
             = set (rendered_activeNotes an) - {js_Number k}"
    unfolding set_rendered_activeNotes
    by (auto simp: obj_get_def map_of_obj_put dest: js_Number_inj)
  have c: "rendered_activeNotes [(KNum 60, True), (KNum 62, False), (KNum 64, True)]
             = [Num 60, Num 64]"
    by (simp add: rendered_activeNotes_def Object_keys_def obj_get_def)
  show ?thesis
    using set_rendered_activeNotes a b c by blast
qed

section \<open>Properties of the connection setup and the play handler\<close>

text \<open>
  What the guard does not cover: a callback built while \<^verbatim>\<open>isListening\<close> was false
  and run twice (the same closure, no render in between) opens two connections and
  makes two subscriptions.
\<close>

lemma same_closure_twice_opens_two:
  "connections_opened (onLoadCallback False (onLoadCallback False s)) = connections_opened s + 2"
  "subscriptions (onLoadCallback False (onLoadCallback False s)) = subscriptions s + 2"
  by (simp_all add: onLoadCallback_def connections_opened_def subscriptions_def)

text \<open>
  Once the effect has run, the callback of the next render captures the flag the run
  has set, so the effect run again after that render changes nothing.
\<close>

lemma load_effect_after_rerender: "load_effect (load_effect s) = load_effect s"
  by (simp add: load_effect_def rendered_onLoadCallback_def onLoadCallback_def)

text \<open>
  Claim C6: \<^verbatim>\<open>onLoadCallback\<close> run with \<^verbatim>\<open>isListening\<close> set does nothing: the state
  is unchanged, no further \<^verbatim>\<open>open_midi_connection\<close> is invoked and no further
  \<^verbatim>\<open>midi_message\<close> subscription is made. This holds for the flag the callback
  captured, and so for the callback of every render whose state has the flag set.
\<close>

theorem onLoadCallback_noop_when_listening:
  "onLoadCallback True s = s \<and>
   connections_opened (onLoadCallback True s) = connections_opened s \<and>
   subscriptions (onLoadCallback True s) = subscriptions s \<and>
   rendered_onLoadCallback (r\<lparr>isListening := True\<rparr>) s = s \<and>
   load_effect (s\<lparr>isListening := True\<rparr>) = s\<lparr>isListening := True\<rparr> \<and>
   connections_opened (load_effect (s\<lparr>isListening := True\<rparr>)) = connections_opened s \<and>
   subscriptions (load_effect (s\<lparr>isListening := True\<rparr>)) = subscriptions s"
  by (simp add: onLoadCallback_def rendered_onLoadCallback_def load_effect_def
        connections_opened_def subscriptions_def)

text \<open>The play handler passes every note on to the sound renderer, as its last call.\<close>

lemma piano_playNote_forwards:
  "calls (piano_playNote ctx n w) =
     calls w @ (if Some n = nextTargetNote ctx \<and> setNoteCounter_supplied ctx
                then [SetNoteCounterCall] else []) @ [PlayNoteCall n]"
  by (simp add: piano_playNote_def)

text \<open>
  Claim C4: with target note 60 and the counter setter supplied, playing 60 calls
  the setter once (the counter goes up by one) and then the renderer's
  \<^verbatim>\<open>playNote(60)\<close>; playing 61 calls only the renderer's \<^verbatim>\<open>playNote(61)\<close>.
\<close>

theorem playNote_counts_only_the_target:
  "piano_playNote \<lparr>nextTargetNote = Some 60, setNoteCounter_supplied = True\<rparr> 60 w
     = w\<lparr>noteCounter := noteCounter w + 1,
         calls := calls w @ [SetNoteCounterCall, PlayNoteCall 60]\<rparr> \<and>
   count_list
       (calls (piano_playNote \<lparr>nextTargetNote = Some 60, setNoteCounter_supplied = True\<rparr> 60 w))
       SetNoteCounterCall
     = count_list (calls w) SetNoteCounterCall + 1 \<and>
   piano_playNote \<lparr>nextTargetNote = Some 60, setNoteCounter_supplied = True\<rparr> 61 w
     = w\<lparr>calls := calls w @ [PlayNoteCall 61]\<rparr> \<and>
   count_list
       (calls (piano_playNote \<lparr>nextTargetNote = Some 60, setNoteCounter_supplied = True\<rparr> 61 w))
       SetNoteCounterCall
     = count_list (calls w) SetNoteCounterCall"
  by (simp add: piano_playNote_def)

end
